theory Spec2Isabelle
  imports Complex_Main
begin

section \<open>JavaScript values the client handles\<close>

text \<open>
  The client is TypeScript. Three features of the language decide claims and are therefore
  written out instead of being hidden behind HOL's \<open>option\<close>:
  \<^item> a property of an object literal is either not a key of the object at all
    (\<open>Absent\<close>), a key whose value is \<^verbatim>\<open>undefined\<close> (\<open>Undefined\<close>), or a key
    with a value (\<open>Val\<close>); object spread \<^verbatim>\<open>{...d, ...c}\<close> copies every key of
    \<^verbatim>\<open>c\<close>, also one whose value is \<^verbatim>\<open>undefined\<close>;
  \<^item> \<^verbatim>\<open>x || d\<close> yields \<^verbatim>\<open>d\<close> for every falsy \<^verbatim>\<open>x\<close>: \<^verbatim>\<open>undefined\<close>,
    \<^verbatim>\<open>""\<close>, \<^verbatim>\<open>0\<close> and \<^verbatim>\<open>NaN\<close>;
  \<^item> \<^verbatim>\<open>parseInt\<close> and \<^verbatim>\<open>parseFloat\<close> return \<^verbatim>\<open>NaN\<close> instead of failing.

  Numbers are idealised: a count or a duration in milliseconds (\<^verbatim>\<open>maxRetries\<close>,
  \<^verbatim>\<open>retryDelay\<close>, \<^verbatim>\<open>timeout\<close>, \<^verbatim>\<open>maxTokens\<close>, an HTTP status) is an \<open>int\<close>
  or \<^verbatim>\<open>NaN\<close>, any other number (\<^verbatim>\<open>temperature\<close>, a sentiment score) is a
  real, an infinity or \<^verbatim>\<open>NaN\<close>. Rounding of doubles is not modelled. A \<open>char\<close> stands
  for a UTF-16 code unit below 256.
\<close>

datatype 'a field = Absent | Undefined | Val 'a

datatype intnum = IntNaN | IntNum int

datatype number = NaN | Num real | PosInfinity | NegInfinity

text \<open>Reading a property: an absent key reads as \<^verbatim>\<open>undefined\<close>.\<close>

fun get :: "'a field \<Rightarrow> 'a option" where
  "get (Val v) = Some v"
| "get _ = None"

fun of_option :: "'a option \<Rightarrow> 'a field" where
  "of_option None = Undefined"
| "of_option (Some v) = Val v"

text \<open>Truthiness of a string or \<^verbatim>\<open>undefined\<close>, and \<^verbatim>\<open>a || b\<close> on such values.\<close>

fun truthy :: "string option \<Rightarrow> bool" where
  "truthy None = False"
| "truthy (Some s) = (s \<noteq> [])"

definition or_else :: "string option \<Rightarrow> string option \<Rightarrow> string option" where
  "or_else a b = (if truthy a then a else b)"

text \<open>\<^verbatim>\<open>x || d\<close> for a numeric property \<^verbatim>\<open>x\<close> and a non-zero literal \<^verbatim>\<open>d\<close>.\<close>

fun or_default :: "intnum field \<Rightarrow> int \<Rightarrow> int" where
  "or_default (Val (IntNum n)) d = (if n = 0 then d else n)"
| "or_default _ d = d"

subsection \<open>Strings\<close>

text \<open>
  \<^verbatim>\<open>String.prototype.trim\<close> removes white space and line terminators at both ends; below
  256 these are the code units 9 to 13, 32 and 160.
\<close>

definition isWhiteSpace :: "char \<Rightarrow> bool" where
  "isWhiteSpace c =
     (c \<in> set [CHR 0x09, CHR 0x0A, CHR 0x0B, CHR 0x0C, CHR 0x0D, CHR 0x20, CHR 0xA0])"

definition trimStart :: "string \<Rightarrow> string" where
  "trimStart s = dropWhile isWhiteSpace s"

definition trim :: "string \<Rightarrow> string" where
  "trim s = rev (trimStart (rev (trimStart s)))"

text \<open>
  \<^verbatim>\<open>toLowerCase\<close>: the capital letters below 256 are 65 to 90 (A to Z) and 192 to 222
  except 215 (the multiplication sign); each differs from its small letter by 32, which
  is bit 5, clear in every capital letter.
\<close>

definition isUpper :: "char \<Rightarrow> bool" where
  "isUpper c = (let n = (of_char c :: nat) in
     (65 \<le> n \<and> n \<le> 90) \<or> (192 \<le> n \<and> n \<le> 222 \<and> n \<noteq> 215))"

definition toLowerChar :: "char \<Rightarrow> char" where
  "toLowerChar c =
     (if isUpper c
      then (case c of Char b0 b1 b2 b3 b4 b5 b6 b7 \<Rightarrow> Char b0 b1 b2 b3 b4 True b6 b7)
      else c)"

definition toLowerCase :: "string \<Rightarrow> string" where
  "toLowerCase s = map toLowerChar s"

text \<open>
  \<^verbatim>\<open>s.split(sep)\<close> for a separator of one character: the result is never empty, and
  \<^verbatim>\<open>"".split("|")\<close> is \<^verbatim>\<open>[""]\<close>.
\<close>

fun split :: "char \<Rightarrow> string \<Rightarrow> string list" where
  "split sep [] = [[]]"
| "split sep (c # cs) =
     (if c = sep then [] # split sep cs
      else (case split sep cs of
              [] \<Rightarrow> [[c]]
            | p # ps \<Rightarrow> (c # p) # ps))"

subsection \<open>Numbers and their text\<close>

definition isDigit :: "char \<Rightarrow> bool" where
  "isDigit c = (c \<in> set ''0123456789'')"

definition digitValue :: "char \<Rightarrow> nat" where
  "digitValue c = of_char c - 48"

definition digitsValue :: "string \<Rightarrow> nat" where
  "digitsValue ds = foldl (\<lambda>n c. 10 * n + digitValue c) 0 ds"

text \<open>An optional sign in front of a numeric literal: is it negative, and what follows it.\<close>

fun signOf :: "string \<Rightarrow> bool \<times> string" where
  "signOf (c # cs) =
     (if c = CHR ''-'' then (True, cs) else if c = CHR ''+'' then (False, cs)
      else (False, c # cs))"
| "signOf [] = (False, [])"

text \<open>
  \<^verbatim>\<open>parseInt(s, 10)\<close>: leading white space is skipped, then the longest prefix that is an
  optional sign and decimal digits is read; without a digit the result is \<^verbatim>\<open>NaN\<close>.
\<close>

definition parseInt :: "string \<Rightarrow> intnum" where
  "parseInt s =
     (let (neg, u) = signOf (trimStart s);
          ds = takeWhile isDigit u
      in if ds = [] then IntNaN
         else IntNum (if neg then - int (digitsValue ds) else int (digitsValue ds)))"

text \<open>
  The exponent part of a decimal literal, \<^verbatim>\<open>e\<close> or \<^verbatim>\<open>E\<close>, an optional sign and at
  least one digit; anything else is not part of the number and counts as exponent 0.
\<close>

fun exponentPart :: "string \<Rightarrow> int" where
  "exponentPart (c # cs) =
     (if c = CHR ''e'' \<or> c = CHR ''E''
      then (let (neg, u) = signOf cs; ds = takeWhile isDigit u
            in if ds = [] then 0
               else if neg then - int (digitsValue ds) else int (digitsValue ds))
      else 0)"
| "exponentPart [] = 0"

definition scale10 :: "real \<Rightarrow> int \<Rightarrow> real" where
  "scale10 m e = (if 0 \<le> e then m * 10 ^ nat e else m / 10 ^ nat (- e))"

text \<open>
  \<^verbatim>\<open>parseFloat(s)\<close>: leading white space is skipped, then the longest prefix that is a
  decimal literal is read: an optional sign, then \<^verbatim>\<open>Infinity\<close> or digits with an
  optional fraction and exponent (digits before or after the point may be missing, not
  both). Whatever follows is ignored; without such a prefix the result is \<^verbatim>\<open>NaN\<close>.
\<close>

definition parseFloat :: "string \<Rightarrow> number" where
  "parseFloat s =
     (let (neg, u) = signOf (trimStart s)
      in if take 8 u = ''Infinity'' then (if neg then NegInfinity else PosInfinity)
         else
           (let ip = takeWhile isDigit u;
                r1 = dropWhile isDigit u;
                (fp, r2) = (case r1 of
                              [] \<Rightarrow> ([], r1)
                            | c # r \<Rightarrow> if c = CHR ''.''
                                       then (takeWhile isDigit r, dropWhile isDigit r)
                                       else ([], r1))
            in if ip = [] \<and> fp = [] then NaN
               else
                 (let mant = real (digitsValue ip) + real (digitsValue fp) / 10 ^ length fp;
                      v = scale10 mant (exponentPart r2)
                  in Num (if neg then - v else v))))"

text \<open>\<^verbatim>\<open>isNaN\<close>, \<^verbatim>\<open>Math.min\<close> and \<^verbatim>\<open>Math.max\<close> of two numbers.\<close>

fun isNaN :: "number \<Rightarrow> bool" where
  "isNaN NaN = True"
| "isNaN _ = False"

fun Math_min :: "number \<Rightarrow> number \<Rightarrow> number" where
  "Math_min NaN y = NaN"
| "Math_min x NaN = NaN"
| "Math_min NegInfinity y = NegInfinity"
| "Math_min x NegInfinity = NegInfinity"
| "Math_min PosInfinity y = y"
| "Math_min x PosInfinity = x"
| "Math_min (Num a) (Num b) = Num (min a b)"

fun Math_max :: "number \<Rightarrow> number \<Rightarrow> number" where
  "Math_max NaN y = NaN"
| "Math_max x NaN = NaN"
| "Math_max PosInfinity y = PosInfinity"
| "Math_max x PosInfinity = PosInfinity"
| "Math_max NegInfinity y = y"
| "Math_max x NegInfinity = x"
| "Math_max (Num a) (Num b) = Num (max a b)"

text \<open>A number inside a template string: the decimal digits of an integer.\<close>

fun showNat :: "nat \<Rightarrow> string" where
  "showNat n =
     (if n < 10 then [''0123456789'' ! n]
      else showNat (n div 10) @ [''0123456789'' ! (n mod 10)])"

declare showNat.simps [simp del]

definition showInt :: "int \<Rightarrow> string" where
  "showInt i = (if i < 0 then CHR ''-'' # showNat (nat (- i)) else showNat (nat i))"

section \<open>Data model (types.ts)\<close>

datatype MessageRole = User | Assistant | System

record Message =
  role :: MessageRole
  msg_content :: string

text \<open>
  \<^verbatim>\<open>AIClientConfig\<close>, also the type of the partial configuration that the caller or the
  environment loader hands to the constructor: every property may be missing. At run
  time \<^verbatim>\<open>provider\<close> is any string.
\<close>

record AIClientConfig =
  provider :: "string field"
  apiKey :: "string field"
  model :: "string field"
  temperature :: "number field"
  maxTokens :: "intnum field"
  baseUrl :: "string field"
  timeout :: "intnum field"
  maxRetries :: "intnum field"
  retryDelay :: "intnum field"

record ChatPromptInput =
  messages :: "Message list"
  input_temperature :: "number option"
  input_maxTokens :: "intnum option"
  stream :: "bool option"

record ChatResult =
  content :: string
  tokensUsed :: "int option"
  result_model :: "string option"
  finishReason :: "string option"
  result_provider :: "string option"

record ChatOptions =
  opt_temperature :: "number option"
  opt_maxTokens :: "intnum option"
  opt_stream :: "bool option"

record ChatStreamChunk =
  chunk_content :: string
  chunk_done :: bool

record ClassifySentimentResult =
  sentiment :: string
  score :: number
  sentiment_tokensUsed :: "int option"
  sentiment_provider :: "string option"
  sentiment_model :: "string option"

section \<open>Errors (errors.ts)\<close>

text \<open>
  What a provider call rejects with is an error object of the provider's SDK or of the
  platform, never one of the client's own classes (\<^verbatim>\<open>openai.ts\<close> and \<^verbatim>\<open>gemini.ts\<close>
  throw a plain \<^verbatim>\<open>Error\<close> or let the SDK's error through). The record has the
  properties that the client reads; \<open>response_status\<close> is \<^verbatim>\<open>error.response?.status\<close>.
\<close>

record js_error =
  message :: string
  status :: "int option"
  statusCode :: "int option"
  response_status :: "int option"
  code :: "string option"

text \<open>
  The client's classes, with their constructor parameters in order:
  \<^verbatim>\<open>AIClientError(message, provider?, statusCode?, originalError?)\<close>,
  \<^verbatim>\<open>TimeoutError(message, provider?)\<close> and
  \<^verbatim>\<open>RetryError(message, retries, provider?, originalError?)\<close>.
\<close>

datatype error =
    JsError js_error
  | AIClientError string "string option" "int option" "error option"
  | TimeoutError string "string option"
  | RetryError string int "string option" "error option"

text \<open>
  The properties of an error that \<^verbatim>\<open>isRetryableError\<close> and the retry loop read. The
  client's classes define \<^verbatim>\<open>statusCode\<close> (\<^verbatim>\<open>undefined\<close> in a \<^verbatim>\<open>TimeoutError\<close>
  and in a \<^verbatim>\<open>RetryError\<close>, whose constructors pass none on), and neither \<^verbatim>\<open>status\<close>,
  \<^verbatim>\<open>response\<close> nor \<^verbatim>\<open>code\<close>.
\<close>

fun message_of :: "error \<Rightarrow> string" where
  "message_of (JsError e) = message e"
| "message_of (AIClientError m p sc oe) = m"
| "message_of (TimeoutError m p) = m"
| "message_of (RetryError m n p oe) = m"

fun status_of :: "error \<Rightarrow> int option" where
  "status_of (JsError e) = status e"
| "status_of _ = None"

fun statusCode_of :: "error \<Rightarrow> int option" where
  "statusCode_of (JsError e) = statusCode e"
| "statusCode_of (AIClientError m p sc oe) = sc"
| "statusCode_of (TimeoutError m p) = None"
| "statusCode_of (RetryError m n p oe) = None"

fun response_status_of :: "error \<Rightarrow> int option" where
  "response_status_of (JsError e) = response_status e"
| "response_status_of _ = None"

fun code_of :: "error \<Rightarrow> string option" where
  "code_of (JsError e) = code e"
| "code_of _ = None"

section \<open>Retry classification (utils.ts)\<close>

text \<open>Truthiness of a status, and \<^verbatim>\<open>a || b\<close> on statuses: 0 and \<^verbatim>\<open>undefined\<close> are falsy.\<close>

fun truthy_status :: "int option \<Rightarrow> bool" where
  "truthy_status None = False"
| "truthy_status (Some n) = (n \<noteq> 0)"

definition or_status :: "int option \<Rightarrow> int option \<Rightarrow> int option" where
  "or_status a b = (if truthy_status a then a else b)"

text \<open>\<^verbatim>\<open>isRetryableError(error)\<close>; \<open>None\<close> is \<^verbatim>\<open>null\<close> or \<^verbatim>\<open>undefined\<close>.\<close>

definition isRetryableError :: "error option \<Rightarrow> bool" where
  "isRetryableError err =
     (case err of
        None \<Rightarrow> False
      | Some error \<Rightarrow>
          (let statusCode' =
                 or_status (or_status (status_of error) (statusCode_of error))
                   (response_status_of error)
           in if truthy_status statusCode'
              then statusCode' = Some 429
                   \<or> (case statusCode' of None \<Rightarrow> False | Some n \<Rightarrow> 500 \<le> n \<and> n < 600)
              else if code_of error = Some ''ECONNRESET'' \<or> code_of error = Some ''ETIMEDOUT''
                      \<or> code_of error = Some ''ENOTFOUND''
              then True
              else False))"

section \<open>The client (client.ts)\<close>

subsection \<open>Providers, hooks and what a call does to the outside\<close>

text \<open>
  A provider call goes to the network. In the model the provider says, for each input
  and for each successive call with it (numbered from 0), how the call ends when run
  under the timeout guard: its promise resolves in time, it rejects in time, or it is
  still pending when the deadline passes. \<open>chatStream\<close> is optional in the interface
  \<^verbatim>\<open>LLMProvider\<close>; a stream is the chunks it yields and the error it then throws, if any.
\<close>

datatype 'a outcome = Resolves 'a | Rejects js_error | Pending

record LLMProvider =
  chat :: "ChatPromptInput \<Rightarrow> nat \<Rightarrow> ChatResult outcome"
  chatStream :: "(ChatPromptInput \<Rightarrow> ChatStreamChunk list \<times> js_error option) option"


text \<open>
  A hook is a closure of the caller. Its result is discarded and whatever it throws is
  caught, so the model names each registered hook by a number and records every call
  with its arguments; hooks are taken not to modify the objects they are given. The
  trace of a call of the client lists, in order, the hook calls, the attempts (invocations
  of the work, here \<^verbatim>\<open>provider.chat(input)\<close>), the sleeps and the opening of a stream.
\<close>

type_synonym hook = nat

datatype event =
    RequestHookCall hook AIClientConfig ChatPromptInput
  | ResponseHookCall hook ChatResult
  | ErrorHookCall hook error
  | Attempt nat
  | Sleep int
  | StreamOpened ChatPromptInput

record AIClient =
  client_provider :: LLMProvider
  config :: AIClientConfig
  requestHooks :: "hook list"
  responseHooks :: "hook list"
  errorHooks :: "hook list"

definition onRequest :: "AIClient \<Rightarrow> hook \<Rightarrow> AIClient" where
  "onRequest c h = c\<lparr>requestHooks := requestHooks c @ [h]\<rparr>"

definition onResponse :: "AIClient \<Rightarrow> hook \<Rightarrow> AIClient" where
  "onResponse c h = c\<lparr>responseHooks := responseHooks c @ [h]\<rparr>"

definition onError :: "AIClient \<Rightarrow> hook \<Rightarrow> AIClient" where
  "onError c h = c\<lparr>errorHooks := errorHooks c @ [h]\<rparr>"

subsection \<open>Timeout guard and retry loop\<close>

text \<open>
  \<^verbatim>\<open>executeWithTimeout(fn)\<close>, given how this invocation of \<^verbatim>\<open>fn\<close> ends: the
  timer rejects with a \<^verbatim>\<open>TimeoutError\<close> exactly when the work is still pending.
\<close>

definition executeWithTimeout :: "AIClient \<Rightarrow> 'a outcome \<Rightarrow> error + 'a" where
  "executeWithTimeout c work =
     (let timeout' = or_default (timeout (config c)) 30000
      in case work of
           Resolves result \<Rightarrow> Inr result
         | Rejects error \<Rightarrow> Inl (JsError error)
         | Pending \<Rightarrow>
             Inl (TimeoutError (''Request timed out after '' @ showInt timeout' @ ''ms'')
                    (get (provider (config c)))))"

text \<open>The dispatch of the error hooks in the \<^verbatim>\<open>catch\<close> block, in registration order.\<close>

definition callErrorHooks :: "AIClient \<Rightarrow> error \<Rightarrow> event list" where
  "callErrorHooks c error = map (\<lambda>h. ErrorHookCall h error) (errorHooks c)"

text \<open>
  The \<^verbatim>\<open>for\<close> loop of \<^verbatim>\<open>executeWithRetry\<close>, from iteration \<open>attempt\<close> on, with the
  trace so far; \<open>fn k\<close> is how the \<open>k\<close>-th invocation of the work ends. The statement
  after the loop is reached only when the loop condition fails.
\<close>

function retryLoop ::
  "AIClient \<Rightarrow> (nat \<Rightarrow> 'a outcome) \<Rightarrow> string \<Rightarrow> int \<Rightarrow> nat \<Rightarrow> error option \<Rightarrow> event list
     \<Rightarrow> event list \<times> (error + 'a)" where
  "retryLoop c fn operation maxRetries' attempt lastError tr =
     (if int attempt \<le> maxRetries'
      then (case executeWithTimeout c (fn attempt) of
              Inr result \<Rightarrow> (tr @ [Attempt attempt], Inr result)
            | Inl error \<Rightarrow>
                (if int attempt < maxRetries' \<and> isRetryableError (Some error)
                 then retryLoop c fn operation maxRetries' (Suc attempt) (Some error)
                        (tr @ Attempt attempt # callErrorHooks c error
                            @ [Sleep (or_default (retryDelay (config c)) 1000 * 2 ^ attempt)])
                 else if int attempt = maxRetries'
                 then (tr @ Attempt attempt # callErrorHooks c error,
                       Inl (RetryError
                              (''Failed after '' @ showInt maxRetries' @ '' retries: ''
                                 @ message_of error)
                              maxRetries' (get (provider (config c))) (Some error)))
                 else (tr @ Attempt attempt # callErrorHooks c error, Inl error)))
      else (tr, Inl (case lastError of
                       Some error \<Rightarrow> error
                     | None \<Rightarrow>
                         AIClientError (''Failed to execute '' @ operation) None None None)))"
  by pat_completeness auto
termination
  by (relation "measure (\<lambda>(c, fn, operation, maxRetries', attempt, lastError, tr).
                           nat (maxRetries' + 1 - int attempt))") auto

declare retryLoop.simps [simp del]

definition executeWithRetry ::
  "AIClient \<Rightarrow> (nat \<Rightarrow> 'a outcome) \<Rightarrow> string \<Rightarrow> event list \<times> (error + 'a)" where
  "executeWithRetry c fn operation =
     retryLoop c fn operation (or_default (maxRetries (config c)) 3) 0 None []"

subsection \<open>The chat path\<close>

text \<open>
  \<^verbatim>\<open>callProvider(input)\<close>: request hooks, the retried provider call, response hooks, and
  then the object that is returned, a copy of the result with \<^verbatim>\<open>provider\<close> and
  \<^verbatim>\<open>model\<close> set.
\<close>

definition callProvider :: "AIClient \<Rightarrow> ChatPromptInput \<Rightarrow> event list \<times> (error + ChatResult)" where
  "callProvider c input =
     (let tr1 = map (\<lambda>h. RequestHookCall h (config c) input) (requestHooks c);
          (tr2, r) = executeWithRetry c (chat (client_provider c) input) ''chat''
      in case r of
           Inl error \<Rightarrow> (tr1 @ tr2, Inl error)
         | Inr result \<Rightarrow>
             (tr1 @ tr2 @ map (\<lambda>h. ResponseHookCall h result) (responseHooks c),
              Inr (result\<lparr>result_provider := get (provider (config c)),
                          result_model := or_else (result_model result)
                                            (get (model (config c)))\<rparr>)))"

text \<open>\<^verbatim>\<open>a ?? b\<close> where \<^verbatim>\<open>a\<close> is a property of the optional \<^verbatim>\<open>options\<close> argument.\<close>

definition nullish :: "'o option \<Rightarrow> ('o \<Rightarrow> 'a option) \<Rightarrow> 'a option \<Rightarrow> 'a option" where
  "nullish options sel b =
     (case options of
        None \<Rightarrow> b
      | Some opts \<Rightarrow> (case sel opts of None \<Rightarrow> b | Some v \<Rightarrow> Some v))"

definition AIClient_chat ::
  "AIClient \<Rightarrow> Message list \<Rightarrow> ChatOptions option \<Rightarrow> event list \<times> (error + ChatResult)" where
  "AIClient_chat c msgs options =
     callProvider c
       \<lparr>messages = msgs,
        input_temperature = nullish options opt_temperature (get (temperature (config c))),
        input_maxTokens = nullish options opt_maxTokens (get (maxTokens (config c))),
        stream = (case options of None \<Rightarrow> None | Some opts \<Rightarrow> opt_stream opts)\<rparr>"

subsection \<open>Sentiment classification\<close>

definition classifySentiment_prompt :: "string \<Rightarrow> string" where
  "classifySentiment_prompt text' =
     ''Classify the sentiment of the following text as \"positive\", \"neutral\", or \"negative\". Return your response in the format: SENTIMENT|SCORE where SENTIMENT is one of the three options and SCORE is a number between 0 and 1:''
       @ [CHR 0x0A, CHR 0x0A] @ text'"

text \<open>
  The block \<^verbatim>\<open>// Parse sentiment and score\<close> of \<^verbatim>\<open>classifySentiment\<close>: from the
  text of the response to the sentiment and the score.
\<close>

definition parseSentiment :: "string \<Rightarrow> string \<times> number" where
  "parseSentiment content' =
     (let parts = split (CHR ''|'') content'
      in if length parts \<ge> 2
         then (let sent = toLowerCase (trim (parts ! 0));
                   sentiment' = (if sent = ''positive'' \<or> sent = ''neutral'' \<or> sent = ''negative''
                                 then sent else ''neutral'');
                   parsedScore = parseFloat (trim (parts ! 1));
                   score' = (if \<not> isNaN parsedScore
                             then Math_max (Num 0) (Math_min (Num 1) parsedScore)
                             else Num 0.5)
               in (sentiment', score'))
         else (''neutral'', Num 0.5))"

definition classifySentiment ::
  "AIClient \<Rightarrow> string \<Rightarrow> event list \<times> (error + ClassifySentimentResult)" where
  "classifySentiment c text' =
     (let prompt = classifySentiment_prompt text';
          (tr, r) = callProvider c
                      \<lparr>messages = [\<lparr>role = User, msg_content = prompt\<rparr>],
                       input_temperature = Some (Num 0.3),
                       input_maxTokens = Some (IntNum 20),
                       stream = None\<rparr>
      in case r of
           Inl error \<Rightarrow> (tr, Inl error)
         | Inr result \<Rightarrow>
             (tr, Inr \<lparr>sentiment = fst (parseSentiment (content result)),
                       score = snd (parseSentiment (content result)),
                       sentiment_tokensUsed = tokensUsed result,
                       sentiment_provider = result_provider result,
                       sentiment_model = result_model result\<rparr>))"

subsection \<open>Streaming\<close>

text \<open>
  \<^verbatim>\<open>chatStream(messages, options)\<close>, consumed to its end: the trace, the chunks yielded
  to the caller and the error thrown, if any. The body of the generator starts with the
  first chunk the caller asks for.
\<close>

definition AIClient_chatStream ::
  "AIClient \<Rightarrow> Message list \<Rightarrow> ChatOptions option
     \<Rightarrow> event list \<times> ChatStreamChunk list \<times> error option" where
  "AIClient_chatStream c msgs options =
     (case chatStream (client_provider c) of
        None \<Rightarrow>
          ([], [], Some (AIClientError ''Streaming not supported by this provider''
                           (get (provider (config c))) None None))
      | Some provider_chatStream \<Rightarrow>
          (let input = \<lparr>messages = msgs,
                        input_temperature =
                          nullish options opt_temperature (get (temperature (config c))),
                        input_maxTokens =
                          nullish options opt_maxTokens (get (maxTokens (config c))),
                        stream = Some True\<rparr>;
               tr1 = map (\<lambda>h. RequestHookCall h (config c) input) (requestHooks c);
               (chunks, failure) = provider_chatStream input
           in case failure of
                None \<Rightarrow> (tr1 @ [StreamOpened input], chunks, None)
              | Some error \<Rightarrow>
                  (tr1 @ StreamOpened input # callErrorHooks c (JsError error), chunks,
                   Some (AIClientError (''Streaming error: '' @ message error)
                           (get (provider (config c))) None (Some (JsError error))))))"

subsection \<open>Construction\<close>

text \<open>
  The provider classes are the boundary to the SDKs: given the arguments of
  \<^verbatim>\<open>new OpenAIProvider(apiKey, model, baseUrl)\<close> and \<^verbatim>\<open>new GeminiProvider(...)\<close> they
  yield a provider. Constructing one opens no connection.
\<close>

record provider_classes =
  OpenAIProvider :: "string option \<Rightarrow> string option \<Rightarrow> string option \<Rightarrow> LLMProvider"
  GeminiProvider :: "string option \<Rightarrow> string option \<Rightarrow> string option \<Rightarrow> LLMProvider"

text \<open>The defaults of the constructor, an object literal with four keys.\<close>

definition defaults :: AIClientConfig where
  "defaults =
     \<lparr>provider = Absent, apiKey = Absent, model = Absent,
      temperature = Val (Num 0.7), maxTokens = Absent, baseUrl = Absent,
      timeout = Val (IntNum 30000), maxRetries = Val (IntNum 3),
      retryDelay = Val (IntNum 1000)\<rparr>"

text \<open>
  \<^verbatim>\<open>{...d, ...c}\<close>: a key of \<^verbatim>\<open>c\<close> overrides the same key of \<^verbatim>\<open>d\<close> whatever its
  value, \<^verbatim>\<open>undefined\<close> included.
\<close>

fun spread_field :: "'a field \<Rightarrow> 'a field \<Rightarrow> 'a field" where
  "spread_field d Absent = d"
| "spread_field d Undefined = Undefined"
| "spread_field d (Val v) = Val v"

definition spread :: "AIClientConfig \<Rightarrow> AIClientConfig \<Rightarrow> AIClientConfig" where
  "spread d c =
     \<lparr>provider = spread_field (provider d) (provider c),
      apiKey = spread_field (apiKey d) (apiKey c),
      model = spread_field (model d) (model c),
      temperature = spread_field (temperature d) (temperature c),
      maxTokens = spread_field (maxTokens d) (maxTokens c),
      baseUrl = spread_field (baseUrl d) (baseUrl c),
      timeout = spread_field (timeout d) (timeout c),
      maxRetries = spread_field (maxRetries d) (maxRetries c),
      retryDelay = spread_field (retryDelay d) (retryDelay c)\<rparr>"

text \<open>A string property inside a template string.\<close>

fun template :: "string field \<Rightarrow> string" where
  "template (Val s) = s"
| "template _ = ''undefined''"

text \<open>The block \<^verbatim>\<open>// Set default model based on provider if not specified\<close>.\<close>

definition defaultModel :: "AIClientConfig \<Rightarrow> AIClientConfig" where
  "defaultModel cfg =
     (if \<not> truthy (get (model cfg))
      then (if provider cfg = Val ''openai'' then cfg\<lparr>model := Val ''gpt-4o-mini''\<rparr>
            else if provider cfg = Val ''gemini'' then cfg\<lparr>model := Val ''gemini-pro''\<rparr>
            else cfg)
      else cfg)"

text \<open>\<^verbatim>\<open>new AIClient(config)\<close>: the error thrown, or the client.\<close>

definition AIClient_new :: "provider_classes \<Rightarrow> AIClientConfig \<Rightarrow> error + AIClient" where
  "AIClient_new classes config' =
     (if \<not> truthy (get (apiKey config'))
      then Inl (AIClientError ''API key is required'' None None None)
      else (let cfg = defaultModel (spread defaults config')
            in if provider cfg = Val ''openai''
               then Inr \<lparr>client_provider =
                           OpenAIProvider classes (get (apiKey cfg)) (get (model cfg))
                             (get (baseUrl cfg)),
                         config = cfg, requestHooks = [], responseHooks = [],
                         errorHooks = []\<rparr>
               else if provider cfg = Val ''gemini''
               then Inr \<lparr>client_provider =
                           GeminiProvider classes (get (apiKey cfg)) (get (model cfg))
                             (get (baseUrl cfg)),
                         config = cfg, requestHooks = [], responseHooks = [],
                         errorHooks = []\<rparr>
               else Inl (AIClientError (''Unsupported provider: '' @ template (provider cfg))
                           None None None)))"

subsection \<open>Configuration from the environment (utils.ts)\<close>

text \<open>
  \<^verbatim>\<open>process.env\<close> is a map from names to strings. \<^verbatim>\<open>v ? parse(v) : undefined\<close> parses a
  variable that is set and not empty.
\<close>

definition parsed :: "(string \<Rightarrow> 'a) \<Rightarrow> string option \<Rightarrow> 'a option" where
  "parsed parse v = (if truthy v then map_option parse v else None)"

definition parseEnvConfig :: "(string \<rightharpoonup> string) \<Rightarrow> AIClientConfig" where
  "parseEnvConfig env =
     (let provider' = or_else (env ''AI_PROVIDER'') (env ''PROVIDER'');
          openaiKey = env ''OPENAI_API_KEY'';
          geminiKey = or_else (env ''GEMINI_API_KEY'') (env ''GOOGLE_AI_API_KEY'');
          model' = or_else (env ''AI_MODEL'') (env ''MODEL'');
          temperature' = parsed parseFloat (env ''AI_TEMPERATURE'');
          maxTokens' = parsed parseInt (env ''AI_MAX_TOKENS'');
          timeout' = parsed parseInt (env ''AI_TIMEOUT'');
          maxRetries' = parsed parseInt (env ''AI_MAX_RETRIES'');
          (apiKey', resolvedProvider) =
            (if provider' = Some ''openai'' \<and> truthy openaiKey then (openaiKey, provider')
             else if provider' = Some ''gemini'' \<and> truthy geminiKey then (geminiKey, provider')
             else if \<not> truthy provider'
             then (if truthy openaiKey then (openaiKey, Some ''openai'')
                   else if truthy geminiKey then (geminiKey, Some ''gemini'')
                   else (None, provider'))
             else (None, provider'))
      in \<lparr>provider = of_option resolvedProvider,
          apiKey = of_option apiKey',
          model = of_option model',
          temperature = of_option temperature',
          maxTokens = of_option maxTokens',
          baseUrl = Absent,
          timeout = of_option timeout',
          maxRetries = of_option maxRetries',
          retryDelay = Absent\<rparr>)"

definition fromEnv :: "provider_classes \<Rightarrow> (string \<rightharpoonup> string) \<Rightarrow> error + AIClient" where
  "fromEnv classes env =
     (let envConfig = parseEnvConfig env
      in if \<not> truthy (get (provider envConfig)) \<or> \<not> truthy (get (apiKey envConfig))
         then Inl (AIClientError
                     ''Missing required environment variables. Set AI_PROVIDER (or PROVIDER) and corresponding API key (OPENAI_API_KEY or GEMINI_API_KEY)''
                     None None None)
         else AIClient_new classes envConfig)"

section \<open>Observations on traces, and example inputs\<close>

text \<open>The attempts of a trace, and its calls of error hooks and of response hooks.\<close>

fun attempts_of :: "event list \<Rightarrow> nat list" where
  "attempts_of [] = []"
| "attempts_of (Attempt k # tr) = k # attempts_of tr"
| "attempts_of (ev # tr) = attempts_of tr"

fun errorHookCalls :: "event list \<Rightarrow> (hook \<times> error) list" where
  "errorHookCalls [] = []"
| "errorHookCalls (ErrorHookCall h e # tr) = (h, e) # errorHookCalls tr"
| "errorHookCalls (ev # tr) = errorHookCalls tr"

fun responseHookCalls :: "event list \<Rightarrow> (hook \<times> ChatResult) list" where
  "responseHookCalls [] = []"
| "responseHookCalls (ResponseHookCall h r # tr) = (h, r) # responseHookCalls tr"
| "responseHookCalls (ev # tr) = responseHookCalls tr"

text \<open>
  Example inputs: errors as a provider's SDK throws them, a result as a provider
  returns it (the providers of this repository set no \<^verbatim>\<open>provider\<close> property), and a
  client for \<^verbatim>\<open>openai\<close> with one hook of each kind, a given \<^verbatim>\<open>maxRetries\<close> property and a
  given behaviour of \<^verbatim>\<open>provider.chat\<close>.
\<close>

definition err_status :: "int \<Rightarrow> js_error" where
  "err_status s =
     \<lparr>message = ''request failed'', status = Some s, statusCode = None,
      response_status = None, code = None\<rparr>"

definition err_reset_404 :: js_error where
  "err_reset_404 =
     \<lparr>message = ''request failed'', status = Some 404, statusCode = None,
      response_status = None, code = Some ''ECONNRESET''\<rparr>"

definition result_of :: "string \<Rightarrow> ChatResult" where
  "result_of s =
     \<lparr>content = s, tokensUsed = Some 12, result_model = Some ''gpt-4o-mini'',
      finishReason = Some ''stop'', result_provider = None\<rparr>"

definition example_config :: "intnum field \<Rightarrow> AIClientConfig" where
  "example_config n =
     \<lparr>provider = Val ''openai'', apiKey = Val ''sk-test'', model = Val ''gpt-4o-mini'',
      temperature = Val (Num 0.7), maxTokens = Absent, baseUrl = Absent,
      timeout = Val (IntNum 30000), maxRetries = n, retryDelay = Val (IntNum 1000)\<rparr>"

definition example_client ::
  "intnum field \<Rightarrow> (nat \<Rightarrow> ChatResult outcome) \<Rightarrow> (ChatPromptInput \<Rightarrow> ChatStreamChunk list \<times> js_error option) option \<Rightarrow> AIClient" where
  "example_client n behaviour streaming =
     \<lparr>client_provider = \<lparr>chat = (\<lambda>input. behaviour), chatStream = streaming\<rparr>,
      config = example_config n,
      requestHooks = [1], responseHooks = [2], errorHooks = [3]\<rparr>"

definition example_input :: ChatPromptInput where
  "example_input =
     \<lparr>messages = [\<lparr>role = User, msg_content = ''Hello''\<rparr>],
      input_temperature = Some (Num 0.7), input_maxTokens = None, stream = None\<rparr>"

text \<open>
  Behaviours of \<^verbatim>\<open>provider.chat\<close>: the first call fails with status 503 and every later
  one hangs; every call fails with the given status; the first call fails with status 503
  and every later one with status 400.
\<close>

definition busy_then_slow :: "nat \<Rightarrow> ChatResult outcome" where
  "busy_then_slow k = (if k = 0 then Rejects (err_status 503) else Pending)"

definition always_failing :: "int \<Rightarrow> nat \<Rightarrow> ChatResult outcome" where
  "always_failing s k = Rejects (err_status s)"

definition busy_then_rejected :: "nat \<Rightarrow> ChatResult outcome" where
  "busy_then_rejected k = (if k = 0 then Rejects (err_status 503) else Rejects (err_status 400))"

text \<open>
  A provider whose every call answers with the given text, an environment that sets the
  provider and its key and nothing else, and configurations as a caller writes them.
\<close>

definition always_answering :: "string \<Rightarrow> nat \<Rightarrow> ChatResult outcome" where
  "always_answering s k = Resolves (result_of s)"

definition example_env :: "string \<rightharpoonup> string" where
  "example_env = [''AI_PROVIDER'' \<mapsto> ''openai'', ''OPENAI_API_KEY'' \<mapsto> ''sk-test'']"

definition minimal_config :: "string \<Rightarrow> string \<Rightarrow> AIClientConfig" where
  "minimal_config p k =
     \<lparr>provider = Val p, apiKey = Val k, model = Absent, temperature = Absent,
      maxTokens = Absent, baseUrl = Absent, timeout = Absent, maxRetries = Absent,
      retryDelay = Absent\<rparr>"

text \<open>Provider classes whose providers answer every call and cannot stream.\<close>

definition example_classes :: provider_classes where
  "example_classes =
     \<lparr>OpenAIProvider = (\<lambda>key m url. \<lparr>chat = (\<lambda>input. always_answering ''Hello from OpenAI''),
                                       chatStream = None\<rparr>),
      GeminiProvider = (\<lambda>key m url. \<lparr>chat = (\<lambda>input. always_answering ''Hello from Gemini''),
                                       chatStream = None\<rparr>)\<rparr>"

section \<open>Lemmas about the retry loop\<close>

text \<open>One iteration of the loop, case by case.\<close>

lemma retryLoop_done:
  "\<not> int a \<le> M \<Longrightarrow>
   retryLoop c fn operation M a le tr =
     (tr, Inl (case le of Some error \<Rightarrow> error
               | None \<Rightarrow> AIClientError (''Failed to execute '' @ operation) None None None))"
  by (subst retryLoop.simps) simp

lemma retryLoop_success:
  "int a \<le> M \<Longrightarrow> executeWithTimeout c (fn a) = Inr res \<Longrightarrow>
   retryLoop c fn operation M a le tr = (tr @ [Attempt a], Inr res)"
  by (subst retryLoop.simps) simp

lemma retryLoop_retry:
  "int a < M \<Longrightarrow> executeWithTimeout c (fn a) = Inl e \<Longrightarrow> isRetryableError (Some e) \<Longrightarrow>
   retryLoop c fn operation M a le tr =
     retryLoop c fn operation M (Suc a) (Some e)
       (tr @ Attempt a # callErrorHooks c e
           @ [Sleep (or_default (retryDelay (config c)) 1000 * 2 ^ a)])"
  by (subst retryLoop.simps) simp

lemma retryLoop_exhausted:
  "int a = M \<Longrightarrow> executeWithTimeout c (fn a) = Inl e \<Longrightarrow>
   retryLoop c fn operation M a le tr =
     (tr @ Attempt a # callErrorHooks c e,
      Inl (RetryError (''Failed after '' @ showInt M @ '' retries: '' @ message_of e) M
             (get (provider (config c))) (Some e)))"
  by (subst retryLoop.simps) simp

lemma retryLoop_fatal:
  "int a < M \<Longrightarrow> executeWithTimeout c (fn a) = Inl e \<Longrightarrow> \<not> isRetryableError (Some e) \<Longrightarrow>
   retryLoop c fn operation M a le tr = (tr @ Attempt a # callErrorHooks c e, Inl e)"
  by (subst retryLoop.simps) simp

lemma retryLoop_cases:
  obtains
    (finished) "\<not> int a \<le> M"
  | (success) res where "int a \<le> M" "executeWithTimeout c (fn a) = Inr res"
  | (retry) e where "int a < M" "executeWithTimeout c (fn a) = Inl e" "isRetryableError (Some e)"
  | (exhausted) e where "int a = M" "executeWithTimeout c (fn a) = Inl e"
  | (fatal) e where "int a < M" "executeWithTimeout c (fn a) = Inl e"
      "\<not> isRetryableError (Some e)"
  by (cases "executeWithTimeout c (fn a)"; cases "int a < M"; cases "int a = M"; force)

lemma Attempt_notin_hooks [simp]: "Attempt k \<notin> set (callErrorHooks c e)"
  by (auto simp: callErrorHooks_def)

lemma Sleep_notin_hooks [simp]: "Sleep d \<notin> set (callErrorHooks c e)"
  by (auto simp: callErrorHooks_def)

lemma executeWithTimeout_Pending:
  "executeWithTimeout c Pending =
     Inl (TimeoutError
            (''Request timed out after '' @ showInt (or_default (timeout (config c)) 30000)
               @ ''ms'')
            (get (provider (config c))))"
  by (simp add: executeWithTimeout_def)

lemma timeout_not_retryable: "\<not> isRetryableError (Some (TimeoutError m p))"
  by (simp add: isRetryableError_def or_status_def)

lemma split_unique:
  assumes "x \<notin> set a" "x \<notin> set b" "a @ x # b = p @ x # q"
  shows "p = a \<and> q = b"
  using assms
proof (induction a arbitrary: p)
  case Nil
  then show ?case by (cases p) auto
next
  case (Cons y a)
  then show ?case by (cases p) auto
qed

lemma retryLoop_timeout_last:
  "fn k = Pending \<Longrightarrow> a \<le> k \<Longrightarrow> Attempt k \<notin> set tr \<Longrightarrow>
   retryLoop c fn operation M a le tr = (T, r) \<Longrightarrow> T = pre @ Attempt k # post \<Longrightarrow>
   (\<exists>m. executeWithTimeout c (fn k) = Inl (TimeoutError m (get (provider (config c))))
         \<and> post = callErrorHooks c (TimeoutError m (get (provider (config c)))))"
proof (induction c fn operation M a le tr rule: retryLoop.induct)
  case (1 c fn operation M a le tr)
  obtain m where tm: "executeWithTimeout c (fn k) = Inl (TimeoutError m (get (provider (config c))))"
    using "1.prems"(1) by (simp add: executeWithTimeout_Pending)
  have inT: "Attempt k \<in> set T"
    using "1.prems"(5) by simp
  have stop: "post = callErrorHooks c e \<and> e = TimeoutError m (get (provider (config c)))"
    if T: "T = tr @ Attempt a # callErrorHooks c e" and e: "executeWithTimeout c (fn a) = Inl e"
    for e
  proof (cases "a = k")
    case True
    with T "1.prems"(3,5) have "post = callErrorHooks c e"
      using split_unique[of "Attempt k" tr "callErrorHooks c e" pre post] by simp
    with True e tm show ?thesis by simp
  next
    case False
    with T "1.prems"(3) have "Attempt k \<notin> set T" by simp
    with inT show ?thesis by simp
  qed
  show ?case
  proof (cases rule: retryLoop_cases[where a=a and M=M and c=c and fn=fn])
    case finished
    with "1.prems"(3,4) inT show ?thesis by (simp add: retryLoop_done)
  next
    case (success res)
    then have T: "T = tr @ [Attempt a]"
      using "1.prems"(4) by (simp add: retryLoop_success)
    with inT "1.prems"(3) have "a = k" by simp
    with success tm show ?thesis by simp
  next
    case (retry e)
    have ne: "a \<noteq> k"
      using retry tm timeout_not_retryable by auto
    have "retryLoop c fn operation M (Suc a) (Some e)
            (tr @ Attempt a # callErrorHooks c e
               @ [Sleep (or_default (retryDelay (config c)) 1000 * 2 ^ a)]) = (T, r)"
      using retry "1.prems"(4) by (simp add: retryLoop_retry)
    moreover have "Attempt k \<notin> set (tr @ Attempt a # callErrorHooks c e
               @ [Sleep (or_default (retryDelay (config c)) 1000 * 2 ^ a)])"
      using ne "1.prems"(3) by simp
    moreover have "Suc a \<le> k" using ne "1.prems"(2) by simp
    moreover have "int a \<le> M" using retry(1) by simp
    ultimately show ?thesis
      using "1.IH"[of e] retry "1.prems"(1,5) by blast
  next
    case (exhausted e)
    then have "T = tr @ Attempt a # callErrorHooks c e"
      using "1.prems"(4) by (simp add: retryLoop_exhausted)
    with stop[of e] exhausted tm show ?thesis by simp
  next
    case (fatal e)
    then have "T = tr @ Attempt a # callErrorHooks c e"
      using "1.prems"(4) by (simp add: retryLoop_fatal)
    with stop[of e] fatal tm show ?thesis by simp
  qed
qed

text \<open>
  The same equation with the \<^verbatim>\<open>try\<close>/\<^verbatim>\<open>catch\<close> written as a test, for evaluating the
  loop on a given behaviour one iteration at a time.
\<close>

lemma retryLoop_unfold:
  "retryLoop c fn operation M a le tr =
     (if int a \<le> M
      then (if isl (executeWithTimeout c (fn a))
            then (if int a < M \<and> isRetryableError (Some (projl (executeWithTimeout c (fn a))))
                  then retryLoop c fn operation M (Suc a)
                         (Some (projl (executeWithTimeout c (fn a))))
                         (tr @ Attempt a # callErrorHooks c (projl (executeWithTimeout c (fn a)))
                             @ [Sleep (or_default (retryDelay (config c)) 1000 * 2 ^ a)])
                  else if int a = M
                  then (tr @ Attempt a # callErrorHooks c (projl (executeWithTimeout c (fn a))),
                        Inl (RetryError
                               (''Failed after '' @ showInt M @ '' retries: ''
                                  @ message_of (projl (executeWithTimeout c (fn a))))
                               M (get (provider (config c)))
                               (Some (projl (executeWithTimeout c (fn a))))))
                  else (tr @ Attempt a # callErrorHooks c (projl (executeWithTimeout c (fn a))),
                        Inl (projl (executeWithTimeout c (fn a)))))
            else (tr @ [Attempt a], Inr (projr (executeWithTimeout c (fn a)))))
      else (tr, Inl (case le of
                       Some error \<Rightarrow> error
                     | None \<Rightarrow>
                         AIClientError (''Failed to execute '' @ operation) None None None)))"
  by (subst retryLoop.simps) (simp split: sum.splits)

lemma showInt_examples:
  "showInt 1 = ''1''" "showInt 2 = ''2''" "showInt 3 = ''3''" "showInt 30000 = ''30000''"
  by (simp_all add: showInt_def showNat.simps)

lemmas example_defs =
  example_client_def example_config_def example_input_def err_status_def result_of_def
  busy_then_slow_def always_failing_def busy_then_rejected_def always_answering_def

lemmas run_defs =
  executeWithTimeout_def callErrorHooks_def isRetryableError_def or_status_def

text \<open>Traces of the loop: what the observations see.\<close>

lemma attempts_of_append [simp]: "attempts_of (xs @ ys) = attempts_of xs @ attempts_of ys"
  by (induction xs rule: attempts_of.induct) auto

lemma errorHookCalls_append [simp]:
  "errorHookCalls (xs @ ys) = errorHookCalls xs @ errorHookCalls ys"
  by (induction xs rule: errorHookCalls.induct) auto

lemma attempts_of_map_hook: "attempts_of (map (\<lambda>h. ErrorHookCall h e) hs) = []"
  by (induction hs) auto

lemma errorHookCalls_map_hook:
  "errorHookCalls (map (\<lambda>h. ErrorHookCall h e) hs) = map (\<lambda>h. (h, e)) hs"
  by (induction hs) auto

lemma attempts_of_hooks [simp]: "attempts_of (callErrorHooks c e) = []"
  by (simp add: callErrorHooks_def attempts_of_map_hook)

lemma errorHookCalls_hooks [simp]:
  "errorHookCalls (callErrorHooks c e) = map (\<lambda>h. (h, e)) (errorHooks c)"
  by (simp add: callErrorHooks_def errorHookCalls_map_hook)

lemma retryLoop_skip:
  "(\<And>j. a \<le> j \<Longrightarrow> j < k \<Longrightarrow>
        \<exists>e. executeWithTimeout c (fn j) = Inl e \<and> isRetryableError (Some e)) \<Longrightarrow>
   a \<le> k \<Longrightarrow> int k \<le> M \<Longrightarrow>
   \<exists>le' mid. retryLoop c fn operation M a le tr = retryLoop c fn operation M k le' (tr @ mid)
      \<and> attempts_of mid = [a..<k]"
proof (induction "k - a" arbitrary: a le tr)
  case 0
  then have "a = k" by simp
  then show ?case by (intro exI[of _ le] exI[of _ "[]"]) simp
next
  case (Suc n)
  then have ak: "a < k" by simp
  with Suc.prems(1)[of a] obtain e where
    e: "executeWithTimeout c (fn a) = Inl e" "isRetryableError (Some e)" by auto
  have "int a < M" using ak Suc.prems(3) by simp
  then have step: "retryLoop c fn operation M a le tr =
     retryLoop c fn operation M (Suc a) (Some e)
       (tr @ Attempt a # callErrorHooks c e
           @ [Sleep (or_default (retryDelay (config c)) 1000 * 2 ^ a)])"
    using e by (rule retryLoop_retry)
  have "n = k - Suc a" using Suc.hyps(2) by simp
  from Suc.hyps(1)[OF this, of "Some e" "tr @ Attempt a # callErrorHooks c e
           @ [Sleep (or_default (retryDelay (config c)) 1000 * 2 ^ a)]"]
  obtain le' mid where
    rest: "retryLoop c fn operation M (Suc a) (Some e)
       (tr @ Attempt a # callErrorHooks c e
           @ [Sleep (or_default (retryDelay (config c)) 1000 * 2 ^ a)]) =
       retryLoop c fn operation M k le'
         ((tr @ Attempt a # callErrorHooks c e
           @ [Sleep (or_default (retryDelay (config c)) 1000 * 2 ^ a)]) @ mid)"
     "attempts_of mid = [Suc a..<k]"
    using Suc.prems ak by auto
  show ?case
    apply (rule exI[of _ le'])
    apply (rule exI[of _ "Attempt a # callErrorHooks c e
           @ [Sleep (or_default (retryDelay (config c)) 1000 * 2 ^ a)] @ mid"])
    using step rest ak by (simp add: upt_conv_Cons)
qed

lemma executeWithTimeout_Inl:
  "executeWithTimeout c w = Inl e \<Longrightarrow> (\<exists>x. e = JsError x) \<or> (\<exists>m p. e = TimeoutError m p)"
  by (auto simp: executeWithTimeout_def split: outcome.splits)

lemma retryLoop_hooks:
  "retryLoop c fn operation M a le tr = (T, r) \<Longrightarrow>
   \<exists>new. T = tr @ new \<and>
     errorHookCalls new =
       concat (map (\<lambda>k. map (\<lambda>h. (h, projl (executeWithTimeout c (fn k)))) (errorHooks c))
                 (filter (\<lambda>k. isl (executeWithTimeout c (fn k))) (attempts_of new)))"
proof (induction c fn operation M a le tr rule: retryLoop.induct)
  case (1 c fn operation M a le tr)
  show ?case
  proof (cases rule: retryLoop_cases[where a=a and M=M and c=c and fn=fn])
    case finished
    with "1.prems" show ?thesis by (simp add: retryLoop_done)
  next
    case (success res)
    then have "T = tr @ [Attempt a]"
      using "1.prems" by (simp add: retryLoop_success)
    then show ?thesis
      by (intro exI[of _ "[Attempt a]"]) (simp add: success(2))
  next
    case (retry e)
    let ?d = "Attempt a # callErrorHooks c e
               @ [Sleep (or_default (retryDelay (config c)) 1000 * 2 ^ a)]"
    have "retryLoop c fn operation M (Suc a) (Some e) (tr @ ?d) = (T, r)"
      using retry "1.prems" by (simp add: retryLoop_retry)
    moreover have "int a \<le> M" using retry(1) by simp
    ultimately obtain new where
      new: "T = (tr @ ?d) @ new"
        "errorHookCalls new =
           concat (map (\<lambda>k. map (\<lambda>h. (h, projl (executeWithTimeout c (fn k)))) (errorHooks c))
                     (filter (\<lambda>k. isl (executeWithTimeout c (fn k))) (attempts_of new)))"
      using "1.IH"[of e] retry by blast
    show ?thesis
      by (rule exI[of _ "?d @ new"]) (use new retry in simp)
  next
    case (exhausted e)
    then have "T = tr @ Attempt a # callErrorHooks c e"
      using "1.prems" by (simp add: retryLoop_exhausted)
    then show ?thesis
      by (intro exI[of _ "Attempt a # callErrorHooks c e"]) (simp add: exhausted(2))
  next
    case (fatal e)
    then have "T = tr @ Attempt a # callErrorHooks c e"
      using "1.prems" by (simp add: retryLoop_fatal)
    then show ?thesis
      by (intro exI[of _ "Attempt a # callErrorHooks c e"]) (simp add: fatal(2))
  qed
qed

lemma responseHookCalls_append [simp]:
  "responseHookCalls (xs @ ys) = responseHookCalls xs @ responseHookCalls ys"
  by (induction xs rule: responseHookCalls.induct) auto

lemma responseHookCalls_error_hooks: "responseHookCalls (map (\<lambda>h. ErrorHookCall h e) hs) = []"
  by (induction hs) auto

lemma responseHookCalls_request_hooks:
  "responseHookCalls (map (\<lambda>h. RequestHookCall h cfg input) hs) = []"
  by (induction hs) auto

lemma responseHookCalls_response_hooks:
  "responseHookCalls (map (\<lambda>h. ResponseHookCall h r) hs) = map (\<lambda>h. (h, r)) hs"
  by (induction hs) auto

lemma responseHookCalls_hooks [simp]: "responseHookCalls (callErrorHooks c e) = []"
  by (simp add: callErrorHooks_def responseHookCalls_error_hooks)

lemma executeWithTimeout_Inr:
  "executeWithTimeout c w = Inr x \<longleftrightarrow> w = Resolves x"
  by (auto simp: executeWithTimeout_def split: outcome.splits)

lemma retryLoop_result:
  "retryLoop c fn operation M a le tr = (T, r) \<Longrightarrow>
   responseHookCalls T = responseHookCalls tr
   \<and> (\<forall>x. r = Inr x \<longrightarrow> (\<exists>k. k \<in> set (attempts_of T) \<and> fn k = Resolves x))"
proof (induction c fn operation M a le tr rule: retryLoop.induct)
  case (1 c fn operation M a le tr)
  show ?case
  proof (cases rule: retryLoop_cases[where a=a and M=M and c=c and fn=fn])
    case finished
    with "1.prems" show ?thesis by (auto simp: retryLoop_done)
  next
    case (success res)
    then have "T = tr @ [Attempt a]" "r = Inr res"
      using "1.prems" by (simp_all add: retryLoop_success)
    moreover have "fn a = Resolves res"
      using success(2) by (simp add: executeWithTimeout_Inr)
    ultimately show ?thesis by auto
  next
    case (retry e)
    let ?d = "Attempt a # callErrorHooks c e
               @ [Sleep (or_default (retryDelay (config c)) 1000 * 2 ^ a)]"
    have "retryLoop c fn operation M (Suc a) (Some e) (tr @ ?d) = (T, r)"
      using retry "1.prems" by (simp add: retryLoop_retry)
    moreover have "int a \<le> M" using retry(1) by simp
    ultimately have "responseHookCalls T = responseHookCalls (tr @ ?d)
       \<and> (\<forall>x. r = Inr x \<longrightarrow> (\<exists>k. k \<in> set (attempts_of T) \<and> fn k = Resolves x))"
      using "1.IH"[of e] retry by blast
    then show ?thesis by simp
  next
    case (exhausted e)
    with "1.prems" show ?thesis by (auto simp: retryLoop_exhausted)
  next
    case (fatal e)
    with "1.prems" show ?thesis by (auto simp: retryLoop_fatal)
  qed
qed

section \<open>The retry classification\<close>

text \<open>
  Claim C4, as the code has it. \<^verbatim>\<open>isRetryableError\<close> looks at one status only, the first
  of \<^verbatim>\<open>error.status\<close>, \<^verbatim>\<open>error.statusCode\<close> and \<^verbatim>\<open>error.response?.status\<close> that is
  present and not 0. If there is one, the error is retryable exactly when that status is
  429 or in [500, 600), whatever \<^verbatim>\<open>error.code\<close> says. Only if there is none, the error is
  retryable exactly when \<^verbatim>\<open>error.code\<close> is \<^verbatim>\<open>ECONNRESET\<close>, \<^verbatim>\<open>ETIMEDOUT\<close> or
  \<^verbatim>\<open>ENOTFOUND\<close>. So an error without status and code, and \<^verbatim>\<open>null\<close>, are not retryable.
\<close>

theorem isRetryableError_first_status_decides:
  "isRetryableError err \<longleftrightarrow>
     (\<exists>error. err = Some error \<and>
        ((\<exists>s. status_of error = Some s \<and> (s = 429 \<or> (500 \<le> s \<and> s < 600)))
       \<or> (\<not> truthy_status (status_of error)
            \<and> (\<exists>s. statusCode_of error = Some s \<and> (s = 429 \<or> (500 \<le> s \<and> s < 600))))
       \<or> (\<not> truthy_status (status_of error) \<and> \<not> truthy_status (statusCode_of error)
            \<and> (\<exists>s. response_status_of error = Some s \<and> (s = 429 \<or> (500 \<le> s \<and> s < 600))))
       \<or> (\<not> truthy_status (status_of error) \<and> \<not> truthy_status (statusCode_of error)
            \<and> \<not> truthy_status (response_status_of error)
            \<and> (code_of error = Some ''ECONNRESET'' \<or> code_of error = Some ''ETIMEDOUT''
                 \<or> code_of error = Some ''ENOTFOUND''))))"
proof (cases err)
  case None
  then show ?thesis by (simp add: isRetryableError_def)
next
  case (Some error)
  show ?thesis
    unfolding Some isRetryableError_def or_status_def
    by (cases "status_of error"; cases "statusCode_of error"; cases "response_status_of error")
       (auto simp: Let_def)
qed

theorem isRetryableError_first_status_decides_witness:
  "isRetryableError (Some (JsError \<lparr>message = ''busy'', status = Some 0, statusCode = Some 503,
      response_status = None, code = None\<rparr>))
   \<and> isRetryableError (Some (JsError \<lparr>message = ''gone'', status = None, statusCode = None,
      response_status = None, code = Some ''ETIMEDOUT''\<rparr>))
   \<and> \<not> isRetryableError (Some (JsError \<lparr>message = ''odd'', status = None, statusCode = None,
      response_status = None, code = None\<rparr>))
   \<and> \<not> isRetryableError None"
  using isRetryableError_first_status_decides
          [of "Some (JsError \<lparr>message = ''busy'', status = Some 0, statusCode = Some 503,
                 response_status = None, code = None\<rparr>)"]
        isRetryableError_first_status_decides
          [of "Some (JsError \<lparr>message = ''gone'', status = None, statusCode = None,
                 response_status = None, code = Some ''ETIMEDOUT''\<rparr>)"]
        isRetryableError_first_status_decides
          [of "Some (JsError \<lparr>message = ''odd'', status = None, statusCode = None,
                 response_status = None, code = None\<rparr>)"]
        isRetryableError_first_status_decides [of None]
  by simp

text \<open>
  The claim says more: that an error carrying one of the three network codes is
  retryable. An error with status 404 and code \<^verbatim>\<open>ECONNRESET\<close> is not.
\<close>

theorem network_code_with_status_counterexample:
  "code_of (JsError err_reset_404) = Some ''ECONNRESET''
   \<and> \<not> isRetryableError (Some (JsError err_reset_404))"
  by (simp add: err_reset_404_def isRetryableError_def or_status_def)

section \<open>Timeouts\<close>

text \<open>
  Claim C5. The \<^verbatim>\<open>TimeoutError\<close> of the timeout guard has no status of any kind and no
  code, and \<^verbatim>\<open>isRetryableError\<close> is false for it. So when the \<open>k\<close>-th invocation of the
  work is still pending at its deadline, whatever follows attempt \<open>k\<close> in the trace of
  \<^verbatim>\<open>executeWithRetry\<close> is the dispatch of the error hooks with that \<^verbatim>\<open>TimeoutError\<close>:
  no sleep and no further attempt, for every value of \<^verbatim>\<open>maxRetries\<close>.
\<close>

theorem timeout_ends_the_run:
  assumes "fn k = Pending"
    and "executeWithRetry c fn operation = (T, r)"
    and "T = pre @ Attempt k # post"
  shows "\<exists>m. executeWithTimeout c (fn k) = Inl (TimeoutError m (get (provider (config c))))
           \<and> status_of (TimeoutError m (get (provider (config c)))) = None
           \<and> statusCode_of (TimeoutError m (get (provider (config c)))) = None
           \<and> response_status_of (TimeoutError m (get (provider (config c)))) = None
           \<and> code_of (TimeoutError m (get (provider (config c)))) = None
           \<and> \<not> isRetryableError (Some (TimeoutError m (get (provider (config c)))))
           \<and> post = callErrorHooks c (TimeoutError m (get (provider (config c))))
           \<and> (\<forall>d. Sleep d \<notin> set post) \<and> (\<forall>j. Attempt j \<notin> set post)"
proof -
  from assms obtain m where
    m: "executeWithTimeout c (fn k) = Inl (TimeoutError m (get (provider (config c))))"
       "post = callErrorHooks c (TimeoutError m (get (provider (config c))))"
    using retryLoop_timeout_last[of fn k 0 "[]" c operation _ None T r pre post]
    unfolding executeWithRetry_def by auto
  then show ?thesis
    using timeout_not_retryable by auto
qed

theorem timeout_ends_the_run_witness:
  "busy_then_slow 1 = Pending
   \<and> executeWithRetry (example_client (Val (IntNum 2)) busy_then_slow None) busy_then_slow ''chat''
       = ([Attempt 0, ErrorHookCall 3 (JsError (err_status 503)), Sleep 1000]
            @ Attempt 1
            # [ErrorHookCall 3 (TimeoutError ''Request timed out after 30000ms'' (Some ''openai''))],
          Inl (TimeoutError ''Request timed out after 30000ms'' (Some ''openai'')))
   \<and> (\<forall>d. Sleep d \<notin> set [ErrorHookCall 3
                (TimeoutError ''Request timed out after 30000ms'' (Some ''openai''))])
   \<and> (\<forall>j. Attempt j \<notin> set [ErrorHookCall 3
                (TimeoutError ''Request timed out after 30000ms'' (Some ''openai''))])"
proof -
  have pending: "busy_then_slow 1 = Pending"
    by (simp add: busy_then_slow_def)
  have run: "executeWithRetry (example_client (Val (IntNum 2)) busy_then_slow None)
               busy_then_slow ''chat''
             = ([Attempt 0, ErrorHookCall 3 (JsError (err_status 503)), Sleep 1000]
                  @ Attempt 1
                  # [ErrorHookCall 3
                       (TimeoutError ''Request timed out after 30000ms'' (Some ''openai''))],
                Inl (TimeoutError ''Request timed out after 30000ms'' (Some ''openai'')))"
    unfolding executeWithRetry_def
    by (subst retryLoop_unfold, simp add: example_defs run_defs showInt_examples)+
  show ?thesis
    using timeout_ends_the_run [OF pending run refl] pending run by simp
qed

section \<open>Failures that are not retryable\<close>




section \<open>Exhausted retries\<close>

text \<open>
  When every attempt fails with a retryable failure and the limit \<open>M\<close> that the loop uses
  is not negative, the attempts are 0 to \<open>M\<close> and the error thrown is a \<^verbatim>\<open>RetryError\<close>
  that wraps the failure of attempt \<open>M\<close> and carries \<open>M\<close> and the provider's name; with
  \<^verbatim>\<open>maxRetries = 2\<close> there are three attempts and \<open>retries\<close> is 2.
\<close>

lemma retries_exhausted:
  assumes fails: "\<forall>j. int j \<le> or_default (maxRetries (config c)) 3 \<longrightarrow>
                   (\<exists>e. executeWithTimeout c (fn j) = Inl e \<and> isRetryableError (Some e))"
    and nonneg: "0 \<le> or_default (maxRetries (config c)) 3"
  shows "\<exists>T e. executeWithRetry c fn operation =
                  (T, Inl (RetryError
                             (''Failed after '' @ showInt (or_default (maxRetries (config c)) 3)
                                @ '' retries: '' @ message_of e)
                             (or_default (maxRetries (config c)) 3) (get (provider (config c)))
                             (Some e)))
           \<and> executeWithTimeout c (fn (nat (or_default (maxRetries (config c)) 3))) = Inl e
           \<and> attempts_of T = [0..<nat (or_default (maxRetries (config c)) 3) + 1]"
proof -
  let ?M = "or_default (maxRetries (config c)) 3"
  let ?k = "nat ?M"
  have k: "int ?k = ?M" using nonneg by simp
  from fails k obtain e where e: "executeWithTimeout c (fn ?k) = Inl e"
    by (metis order_refl)
  have "\<And>j. 0 \<le> j \<Longrightarrow> j < ?k \<Longrightarrow>
          \<exists>e. executeWithTimeout c (fn j) = Inl e \<and> isRetryableError (Some e)"
    using fails k by (metis less_imp_le of_nat_le_iff)
  then obtain le' mid where
    skip: "retryLoop c fn operation ?M 0 None [] = retryLoop c fn operation ?M ?k le' ([] @ mid)"
      and mid: "attempts_of mid = [0..<?k]"
    using retryLoop_skip[of 0 ?k c fn ?M operation None "[]"] k by auto
  have "retryLoop c fn operation ?M ?k le' mid =
          (mid @ Attempt ?k # callErrorHooks c e,
           Inl (RetryError (''Failed after '' @ showInt ?M @ '' retries: '' @ message_of e) ?M
                  (get (provider (config c))) (Some e)))"
    using k e by (rule retryLoop_exhausted)
  with skip mid e show ?thesis
    unfolding executeWithRetry_def by simp
qed

lemma maxRetries_two_example:
  "executeWithRetry (example_client (Val (IntNum 2)) (always_failing 503) None)
         (always_failing 503) ''chat''
       = ([Attempt 0, ErrorHookCall 3 (JsError (err_status 503)), Sleep 1000,
           Attempt 1, ErrorHookCall 3 (JsError (err_status 503)), Sleep 2000,
           Attempt 2, ErrorHookCall 3 (JsError (err_status 503))],
          Inl (RetryError ''Failed after 2 retries: request failed'' 2 (Some ''openai'')
                 (Some (JsError (err_status 503)))))"
  unfolding executeWithRetry_def
  by (subst retryLoop_unfold, simp add: example_defs run_defs showInt_examples)+

text \<open>
  Claim C3 says this of the configured value \<open>N\<close>. The loop reads
  \<^verbatim>\<open>this.config.maxRetries || 3\<close>, and 0 is falsy: with \<^verbatim>\<open>maxRetries = 0\<close> and a provider
  that always fails with status 503 the client makes four attempts, not one, and the
  \<^verbatim>\<open>RetryError\<close> carries \<open>retries = 3\<close>, not 0.
\<close>

theorem maxRetries_zero_still_retries:
  "executeWithRetry (example_client (Val (IntNum 0)) (always_failing 503) None)
         (always_failing 503) ''chat''
       = ([Attempt 0, ErrorHookCall 3 (JsError (err_status 503)), Sleep 1000,
           Attempt 1, ErrorHookCall 3 (JsError (err_status 503)), Sleep 2000,
           Attempt 2, ErrorHookCall 3 (JsError (err_status 503)), Sleep 4000,
           Attempt 3, ErrorHookCall 3 (JsError (err_status 503))],
          Inl (RetryError ''Failed after 3 retries: request failed'' 3 (Some ''openai'')
                 (Some (JsError (err_status 503)))))"
  unfolding executeWithRetry_def
  by (subst retryLoop_unfold, simp add: example_defs run_defs showInt_examples)+

section \<open>What the error hooks receive\<close>

text \<open>
  Claim C10. In a run of \<^verbatim>\<open>executeWithRetry\<close> the calls of the error hooks are, for each
  failed attempt in order, one call of each registered hook in registration order with
  the failure of that attempt as \<^verbatim>\<open>executeWithTimeout\<close> raised it: the provider's error,
  or the \<^verbatim>\<open>TimeoutError\<close> of that attempt when the work was still pending. The
  \<^verbatim>\<open>RetryError\<close> is made after the dispatch and is only thrown: no error hook is called
  with a \<^verbatim>\<open>RetryError\<close>.
\<close>

theorem error_hooks_receive_raw_failures:
  assumes run: "executeWithRetry c fn operation = (T, r)"
  shows "errorHookCalls T =
           concat (map (\<lambda>k. map (\<lambda>h. (h, projl (executeWithTimeout c (fn k)))) (errorHooks c))
                     (filter (\<lambda>k. isl (executeWithTimeout c (fn k))) (attempts_of T)))
     \<and> (\<forall>k. fn k = Pending \<longrightarrow>
            (\<exists>m. projl (executeWithTimeout c (fn k)) = TimeoutError m (get (provider (config c)))))
     \<and> (\<forall>h e. (h, e) \<in> set (errorHookCalls T) \<longrightarrow> (\<forall>m n p oe. e \<noteq> RetryError m n p oe))"
proof -
  have calls: "errorHookCalls T =
           concat (map (\<lambda>k. map (\<lambda>h. (h, projl (executeWithTimeout c (fn k)))) (errorHooks c))
                     (filter (\<lambda>k. isl (executeWithTimeout c (fn k))) (attempts_of T)))"
    using retryLoop_hooks[of c fn operation _ 0 None "[]" T r] run
    unfolding executeWithRetry_def by auto
  have raw: "\<forall>m n p oe. e \<noteq> RetryError m n p oe" if "(h, e) \<in> set (errorHookCalls T)" for h e
  proof -
    from that calls obtain k where "isl (executeWithTimeout c (fn k))"
      "e = projl (executeWithTimeout c (fn k))" by auto
    then have "executeWithTimeout c (fn k) = Inl e" by (cases "executeWithTimeout c (fn k)") auto
    from executeWithTimeout_Inl[OF this] show ?thesis by auto
  qed
  show ?thesis
    using calls raw by (auto simp: executeWithTimeout_Pending)
qed

theorem error_hooks_receive_raw_failures_witness:
  "executeWithRetry (example_client (Val (IntNum 2)) busy_then_slow None) busy_then_slow ''chat''
       = ([Attempt 0, ErrorHookCall 3 (JsError (err_status 503)), Sleep 1000, Attempt 1,
           ErrorHookCall 3 (TimeoutError ''Request timed out after 30000ms'' (Some ''openai''))],
          Inl (TimeoutError ''Request timed out after 30000ms'' (Some ''openai'')))
   \<and> errorHookCalls
         [Attempt 0, ErrorHookCall 3 (JsError (err_status 503)), Sleep 1000, Attempt 1,
          ErrorHookCall 3 (TimeoutError ''Request timed out after 30000ms'' (Some ''openai''))]
       = [(3, JsError (err_status 503)),
          (3, TimeoutError ''Request timed out after 30000ms'' (Some ''openai''))]"
proof -
  have run: "executeWithRetry (example_client (Val (IntNum 2)) busy_then_slow None)
               busy_then_slow ''chat''
       = ([Attempt 0, ErrorHookCall 3 (JsError (err_status 503)), Sleep 1000, Attempt 1,
           ErrorHookCall 3 (TimeoutError ''Request timed out after 30000ms'' (Some ''openai''))],
          Inl (TimeoutError ''Request timed out after 30000ms'' (Some ''openai'')))"
    unfolding executeWithRetry_def
    by (subst retryLoop_unfold, simp add: example_defs run_defs showInt_examples)+
  show ?thesis
    using error_hooks_receive_raw_failures [OF run] run by simp
qed

section \<open>What the response hooks receive\<close>

text \<open>
  Claim C1, as the code has it. The task methods, \<^verbatim>\<open>customPrompt\<close> and \<^verbatim>\<open>chat\<close> each
  call \<^verbatim>\<open>callProvider\<close> once, with an input of their own, so the statement is about
  \<^verbatim>\<open>callProvider\<close> at every input. When it succeeds, some call of \<^verbatim>\<open>provider.chat\<close>
  resolved with a result \<open>raw\<close>; the calls of the response hooks are one call of each
  registered hook, in registration order, with \<open>raw\<close>, the result as the provider
  returned it; and the caller gets the decorated copy of \<open>raw\<close>, with \<^verbatim>\<open>provider\<close> set to
  the configured name and \<^verbatim>\<open>model\<close> to \<^verbatim>\<open>raw.model || this.config.model\<close>. The copy is
  made after the hooks have run.
\<close>

theorem response_hooks_receive_provider_result:
  assumes "callProvider c input = (T, Inr result)"
  shows "\<exists>raw k. chat (client_provider c) input k = Resolves raw
           \<and> responseHookCalls T = map (\<lambda>h. (h, raw)) (responseHooks c)
           \<and> result = raw\<lparr>result_provider := get (provider (config c)),
                            result_model := or_else (result_model raw)
                                              (get (model (config c)))\<rparr>"
proof -
  obtain tr2 r where run: "executeWithRetry c (chat (client_provider c) input) ''chat'' = (tr2, r)"
    by (cases "executeWithRetry c (chat (client_provider c) input) ''chat''")
  with assms obtain raw where raw: "r = Inr raw"
    by (cases r) (auto simp: callProvider_def)
  from run have loop: "responseHookCalls tr2 = []"
      "\<exists>k. k \<in> set (attempts_of tr2) \<and> chat (client_provider c) input k = Resolves raw"
    using retryLoop_result[of c "chat (client_provider c) input" "''chat''" _ 0 None "[]" tr2 r] raw
    unfolding executeWithRetry_def by auto
  from assms run raw have
    "T = map (\<lambda>h. RequestHookCall h (config c) input) (requestHooks c) @ tr2
           @ map (\<lambda>h. ResponseHookCall h raw) (responseHooks c)"
    "result = raw\<lparr>result_provider := get (provider (config c)),
                   result_model := or_else (result_model raw) (get (model (config c)))\<rparr>"
    by (auto simp: callProvider_def)
  with loop show ?thesis
    by (auto simp: responseHookCalls_request_hooks responseHookCalls_response_hooks)
qed

theorem response_hooks_receive_provider_result_witness:
  "callProvider (example_client (Val (IntNum 2)) (always_answering ''Hello!'') None) example_input
     = ([RequestHookCall 1 (example_config (Val (IntNum 2))) example_input, Attempt 0,
         ResponseHookCall 2 (result_of ''Hello!'')],
        Inr ((result_of ''Hello!'')\<lparr>result_provider := Some ''openai''\<rparr>))
   \<and> responseHookCalls
         [RequestHookCall 1 (example_config (Val (IntNum 2))) example_input, Attempt 0,
          ResponseHookCall 2 (result_of ''Hello!'')]
       = [(2, result_of ''Hello!'')]"
proof -
  have run: "callProvider (example_client (Val (IntNum 2)) (always_answering ''Hello!'') None)
               example_input
     = ([RequestHookCall 1 (example_config (Val (IntNum 2))) example_input, Attempt 0,
         ResponseHookCall 2 (result_of ''Hello!'')],
        Inr ((result_of ''Hello!'')\<lparr>result_provider := Some ''openai''\<rparr>))"
    unfolding callProvider_def executeWithRetry_def
    by (subst retryLoop_unfold) (simp add: example_defs run_defs or_else_def)
  show ?thesis
    using response_hooks_receive_provider_result [OF run] run by simp
qed

text \<open>
  The claim as stated, that the hooks receive the decorated result, fails for a provider
  that sets no \<^verbatim>\<open>provider\<close> property, as the providers of this repository do: the hook
  is called with a result without it, and the caller gets one with it.
\<close>

theorem response_hook_before_decoration_counterexample:
  "callProvider (example_client (Val (IntNum 2)) (always_answering ''Hello!'') None) example_input
     = ([RequestHookCall 1 (example_config (Val (IntNum 2))) example_input, Attempt 0,
         ResponseHookCall 2 (result_of ''Hello!'')],
        Inr ((result_of ''Hello!'')\<lparr>result_provider := Some ''openai''\<rparr>))
   \<and> result_provider (result_of ''Hello!'') = None
   \<and> result_of ''Hello!'' \<noteq> (result_of ''Hello!'')\<lparr>result_provider := Some ''openai''\<rparr>"
  unfolding callProvider_def executeWithRetry_def
  by (subst retryLoop_unfold) (simp add: example_defs run_defs or_else_def)

section \<open>Streaming without a streaming provider\<close>

text \<open>
  The client tests \<^verbatim>\<open>!this.provider.chatStream\<close> first. For a provider object without
  that member it throws an \<^verbatim>\<open>AIClientError\<close> ``Streaming not supported by this provider''
  with the provider's name; the trace is empty, so no request hook was called and no
  stream was opened, and no chunk was yielded.
\<close>

lemma chatStream_without_member:
  assumes "chatStream (client_provider c) = None"
  shows "AIClient_chatStream c msgs options =
           ([], [], Some (AIClientError ''Streaming not supported by this provider''
                            (get (provider (config c))) None None))"
  using assms by (simp add: AIClient_chatStream_def)

text \<open>
  A provider that has the member is asked, also when the operation only fails: the
  request hooks run first, and the failure is reported to the error hooks and thrown as a
  ``Streaming error''.
\<close>

lemma chatStream_failing_stream:
  assumes "chatStream (client_provider c) = Some s" and "s input = ([], Some e)"
    and "input = \<lparr>messages = msgs,
                   input_temperature =
                     nullish options opt_temperature (get (temperature (config c))),
                   input_maxTokens = nullish options opt_maxTokens (get (maxTokens (config c))),
                   stream = Some True\<rparr>"
  shows "AIClient_chatStream c msgs options =
           (map (\<lambda>h. RequestHookCall h (config c) input) (requestHooks c)
              @ StreamOpened input # callErrorHooks c (JsError e),
            [],
            Some (AIClientError (''Streaming error: '' @ message e)
                    (get (provider (config c))) None (Some (JsError e))))"
  using assms by (simp add: AIClient_chatStream_def Let_def)



section \<open>Construction\<close>

text \<open>The stored configuration, property by property.\<close>

lemma spread_field_Absent [simp]: "spread_field Absent x = x"
  by (cases x) auto

lemma spread_defaults_fields:
  "provider (spread defaults cfg) = provider cfg"
  "apiKey (spread defaults cfg) = apiKey cfg"
  "model (spread defaults cfg) = model cfg"
  "baseUrl (spread defaults cfg) = baseUrl cfg"
  "maxTokens (spread defaults cfg) = maxTokens cfg"
  "temperature (spread defaults cfg) = spread_field (Val (Num 0.7)) (temperature cfg)"
  "maxRetries (spread defaults cfg) = spread_field (Val (IntNum 3)) (maxRetries cfg)"
  "retryDelay (spread defaults cfg) = spread_field (Val (IntNum 1000)) (retryDelay cfg)"
  "timeout (spread defaults cfg) = spread_field (Val (IntNum 30000)) (timeout cfg)"
  by (simp_all add: spread_def defaults_def)

lemma defaultModel_fields:
  "provider (defaultModel cfg) = provider cfg"
  "temperature (defaultModel cfg) = temperature cfg"
  "maxRetries (defaultModel cfg) = maxRetries cfg"
  "retryDelay (defaultModel cfg) = retryDelay cfg"
  "timeout (defaultModel cfg) = timeout cfg"
  by (simp_all add: defaultModel_def)

lemma AIClient_new_Inr:
  "AIClient_new classes cfg = Inr c \<Longrightarrow>
   truthy (get (apiKey cfg)) \<and> (provider cfg = Val ''openai'' \<or> provider cfg = Val ''gemini'')
   \<and> config c = defaultModel (spread defaults cfg)"
  by (auto simp: AIClient_new_def Let_def defaultModel_fields spread_defaults_fields
           split: if_splits)

text \<open>
  Claim C6. \<^verbatim>\<open>new AIClient(config)\<close> throws exactly when \<^verbatim>\<open>config.apiKey\<close> is empty
  (or missing) or \<^verbatim>\<open>config.provider\<close> is neither \<^verbatim>\<open>openai\<close> nor \<^verbatim>\<open>gemini\<close>. The
  constructor calls nothing but the constructor of a provider class, and that only when
  it succeeds: the error it throws is the same whatever the provider classes are. When
  it succeeds the stored \<^verbatim>\<open>model\<close> is not empty: the given one, or else
  \<^verbatim>\<open>gpt-4o-mini\<close> for \<^verbatim>\<open>openai\<close> and \<^verbatim>\<open>gemini-pro\<close> for \<^verbatim>\<open>gemini\<close>.
\<close>

theorem construction_fails_iff_key_or_provider:
  "(isl (AIClient_new classes cfg) \<longleftrightarrow>
      \<not> truthy (get (apiKey cfg))
      \<or> (provider cfg \<noteq> Val ''openai'' \<and> provider cfg \<noteq> Val ''gemini''))
   \<and> (\<forall>e. AIClient_new classes cfg = Inl e \<longrightarrow> (\<forall>classes'. AIClient_new classes' cfg = Inl e))
   \<and> (\<forall>c. AIClient_new classes cfg = Inr c \<longrightarrow>
          truthy (get (model (config c)))
          \<and> (truthy (get (model cfg)) \<longrightarrow> model (config c) = model cfg)
          \<and> (\<not> truthy (get (model cfg)) \<and> provider cfg = Val ''openai''
               \<longrightarrow> model (config c) = Val ''gpt-4o-mini'')
          \<and> (\<not> truthy (get (model cfg)) \<and> provider cfg = Val ''gemini''
               \<longrightarrow> model (config c) = Val ''gemini-pro''))"
proof (intro conjI allI impI)
  show "isl (AIClient_new classes cfg) \<longleftrightarrow>
      \<not> truthy (get (apiKey cfg))
      \<or> (provider cfg \<noteq> Val ''openai'' \<and> provider cfg \<noteq> Val ''gemini'')"
    by (simp add: AIClient_new_def Let_def defaultModel_fields spread_defaults_fields)
next
  fix e classes'
  assume "AIClient_new classes cfg = Inl e"
  then show "AIClient_new classes' cfg = Inl e"
    by (simp add: AIClient_new_def Let_def defaultModel_fields spread_defaults_fields
             split: if_splits)
next
  fix c
  assume ok: "AIClient_new classes cfg = Inr c"
  from AIClient_new_Inr[OF ok] have
    p: "provider cfg = Val ''openai'' \<or> provider cfg = Val ''gemini''"
    and c: "config c = defaultModel (spread defaults cfg)" by simp_all
  show "truthy (get (model (config c)))"
    using p c by (auto simp: defaultModel_def spread_defaults_fields)
  show "model (config c) = model cfg" if "truthy (get (model cfg))"
    using that c by (simp add: defaultModel_def spread_defaults_fields)
  show "model (config c) = Val ''gpt-4o-mini''"
    if "\<not> truthy (get (model cfg)) \<and> provider cfg = Val ''openai''"
    using that c by (simp add: defaultModel_def spread_defaults_fields)
  show "model (config c) = Val ''gemini-pro''"
    if "\<not> truthy (get (model cfg)) \<and> provider cfg = Val ''gemini''"
    using that c by (simp add: defaultModel_def spread_defaults_fields)
qed

theorem construction_fails_iff_key_or_provider_witness:
  "isl (AIClient_new example_classes (minimal_config ''openai'' []))
   \<and> isl (AIClient_new example_classes (minimal_config ''claude'' ''sk-test''))
   \<and> \<not> isl (AIClient_new example_classes (minimal_config ''gemini'' ''sk-test''))"
proof -
  have "isl (AIClient_new example_classes (minimal_config ''openai'' []))"
    using construction_fails_iff_key_or_provider
            [of example_classes "minimal_config ''openai'' []", THEN conjunct1]
    by (simp add: minimal_config_def)
  moreover have "isl (AIClient_new example_classes (minimal_config ''claude'' ''sk-test''))"
    using construction_fails_iff_key_or_provider
            [of example_classes "minimal_config ''claude'' ''sk-test''", THEN conjunct1]
    by (simp add: minimal_config_def)
  moreover have "\<not> isl (AIClient_new example_classes (minimal_config ''gemini'' ''sk-test''))"
    using construction_fails_iff_key_or_provider
            [of example_classes "minimal_config ''gemini'' ''sk-test''", THEN conjunct1]
    by (simp add: minimal_config_def)
  ultimately show ?thesis by simp
qed

section \<open>Defaults of the stored configuration\<close>

text \<open>
  The constructor spreads the caller's configuration over its four defaults, so a
  property that is not a key of that configuration gets its default, and a configuration
  with \<^verbatim>\<open>provider\<close> and \<^verbatim>\<open>apiKey\<close> only is stored with 0.7, 3, 1000 and 30000.
\<close>

lemma constructor_fills_absent_defaults:
  assumes "AIClient_new classes cfg = Inr c"
  shows "temperature (config c) = spread_field (Val (Num 0.7)) (temperature cfg)"
    and "maxRetries (config c) = spread_field (Val (IntNum 3)) (maxRetries cfg)"
    and "retryDelay (config c) = spread_field (Val (IntNum 1000)) (retryDelay cfg)"
    and "timeout (config c) = spread_field (Val (IntNum 30000)) (timeout cfg)"
  using AIClient_new_Inr[OF assms] by (simp_all add: defaultModel_fields spread_defaults_fields)

lemma minimal_config_gets_defaults:
  "map_sum id config (AIClient_new classes (minimal_config ''openai'' ''sk-test'')) =
     Inr \<lparr>provider = Val ''openai'', apiKey = Val ''sk-test'', model = Val ''gpt-4o-mini'',
          temperature = Val (Num 0.7), maxTokens = Absent, baseUrl = Absent,
          timeout = Val (IntNum 30000), maxRetries = Val (IntNum 3),
          retryDelay = Val (IntNum 1000)\<rparr>"
  by (simp add: AIClient_new_def minimal_config_def defaultModel_def spread_def defaults_def)

text \<open>
  Claim C7 says the same of a configuration from \<^verbatim>\<open>fromEnv\<close>. But the object that
  \<^verbatim>\<open>parseEnvConfig\<close> returns has the keys \<^verbatim>\<open>temperature\<close>, \<^verbatim>\<open>timeout\<close> and
  \<^verbatim>\<open>maxRetries\<close> also when the variables are not set, with the value \<^verbatim>\<open>undefined\<close>, and
  the spread copies them over the defaults. With only \<^verbatim>\<open>AI_PROVIDER\<close> and
  \<^verbatim>\<open>OPENAI_API_KEY\<close> set, the stored \<^verbatim>\<open>temperature\<close>, \<^verbatim>\<open>timeout\<close> and \<^verbatim>\<open>maxRetries\<close> are
  \<^verbatim>\<open>undefined\<close>, not 0.7, 30000 and 3; only \<^verbatim>\<open>retryDelay\<close>, which the loader never
  sets, is 1000.
\<close>

theorem fromEnv_stores_undefined:
  "parseEnvConfig example_env =
     \<lparr>provider = Val ''openai'', apiKey = Val ''sk-test'', model = Undefined,
      temperature = Undefined, maxTokens = Undefined, baseUrl = Absent,
      timeout = Undefined, maxRetries = Undefined, retryDelay = Absent\<rparr>
   \<and> map_sum id config (fromEnv classes example_env) =
     Inr \<lparr>provider = Val ''openai'', apiKey = Val ''sk-test'', model = Val ''gpt-4o-mini'',
          temperature = Undefined, maxTokens = Undefined, baseUrl = Absent,
          timeout = Undefined, maxRetries = Undefined,
          retryDelay = Val (IntNum 1000)\<rparr>"
  by (simp add: fromEnv_def parseEnvConfig_def example_env_def parsed_def or_else_def
        AIClient_new_def defaultModel_def spread_def defaults_def)

theorem fromEnv_stores_undefined_witness:
  "map_sum id config (fromEnv example_classes example_env) =
     Inr \<lparr>provider = Val ''openai'', apiKey = Val ''sk-test'', model = Val ''gpt-4o-mini'',
          temperature = Undefined, maxTokens = Undefined, baseUrl = Absent,
          timeout = Undefined, maxRetries = Undefined,
          retryDelay = Val (IntNum 1000)\<rparr>"
  by (rule fromEnv_stores_undefined [of example_classes, THEN conjunct2])

section \<open>Parsing the sentiment\<close>

lemma split_not_Nil [simp]: "split sep s \<noteq> []"
  by (induction s) (auto split: list.splits)

lemma split_no_separator: "sep \<notin> set s \<Longrightarrow> split sep s = [s]"
  by (induction s) auto

lemma split_first_part:
  "sep \<notin> set p \<Longrightarrow> split sep (p @ sep # rest) = p # split sep rest"
  by (induction p) auto

lemma parseSentiment_two_parts:
  assumes "split (CHR ''|'') s = p0 # p1 # ps"
  shows "parseSentiment s =
          (if toLowerCase (trim p0) = ''positive'' \<or> toLowerCase (trim p0) = ''neutral''
              \<or> toLowerCase (trim p0) = ''negative''
           then toLowerCase (trim p0) else ''neutral'',
           case parseFloat (trim p1) of
             NaN \<Rightarrow> Num (1 / 2)
           | Num x \<Rightarrow> Num (max 0 (min 1 x))
           | PosInfinity \<Rightarrow> Num 1
           | NegInfinity \<Rightarrow> Num 0)"
  using assms by (simp add: parseSentiment_def Let_def split: number.splits)

lemma classifySentiment_result:
  assumes "callProvider c
             \<lparr>messages = [\<lparr>role = User, msg_content = classifySentiment_prompt text'\<rparr>],
              input_temperature = Some (Num 0.3), input_maxTokens = Some (IntNum 20),
              stream = None\<rparr> = (T, Inr result)"
  shows "classifySentiment c text' =
           (T, Inr \<lparr>sentiment = fst (parseSentiment (content result)),
                    score = snd (parseSentiment (content result)),
                    sentiment_tokensUsed = tokensUsed result,
                    sentiment_provider = result_provider result,
                    sentiment_model = result_model result\<rparr>)"
  using assms by (simp add: classifySentiment_def)

text \<open>
  Claim C8, as the code has it. \<^verbatim>\<open>classifySentiment\<close> returns the sentiment and the score
  that the parsing block computes from the text of the response (lemma
  \<open>classifySentiment_result\<close>). The block looks at the parts only when the split on
  \<^verbatim>\<open>|\<close> yields at least two. A response without \<^verbatim>\<open>|\<close> gives \<^verbatim>\<open>neutral\<close> and 0.5. A
  response with first part \<open>p0\<close> and second part \<open>p1\<close> gives as sentiment \<open>p0\<close>, trimmed and
  in lower case, if that is \<^verbatim>\<open>positive\<close>, \<^verbatim>\<open>neutral\<close> or \<^verbatim>\<open>negative\<close>, and \<^verbatim>\<open>neutral\<close>
  otherwise; and as score \<^verbatim>\<open>parseFloat\<close> of the trimmed \<open>p1\<close> clamped to [0, 1], or 0.5 if
  that is \<^verbatim>\<open>NaN\<close>. The sentiment is always one of the three and the score is always in
  [0, 1]; \<^verbatim>\<open>positive|0.95\<close> gives \<^verbatim>\<open>positive\<close> and 0.95, and \<^verbatim>\<open>maybe\<close> gives
  \<^verbatim>\<open>neutral\<close> and 0.5.
\<close>

theorem parseSentiment_needs_two_parts:
  "(CHR ''|'' \<notin> set s \<longrightarrow> parseSentiment s = (''neutral'', Num (1 / 2)))
   \<and> (CHR ''|'' \<notin> set p0 \<and> CHR ''|'' \<notin> set p1 \<and> (s = p0 @ ''|'' @ p1 \<or> s = p0 @ ''|'' @ p1 @ ''|'' @ rest)
        \<longrightarrow> parseSentiment s =
          (if toLowerCase (trim p0) = ''positive'' \<or> toLowerCase (trim p0) = ''neutral''
              \<or> toLowerCase (trim p0) = ''negative''
           then toLowerCase (trim p0) else ''neutral'',
           case parseFloat (trim p1) of
             NaN \<Rightarrow> Num (1 / 2)
           | Num x \<Rightarrow> Num (max 0 (min 1 x))
           | PosInfinity \<Rightarrow> Num 1
           | NegInfinity \<Rightarrow> Num 0))
   \<and> (fst (parseSentiment s) = ''positive'' \<or> fst (parseSentiment s) = ''neutral''
        \<or> fst (parseSentiment s) = ''negative'')
   \<and> (\<exists>x. snd (parseSentiment s) = Num x \<and> 0 \<le> x \<and> x \<le> 1)
   \<and> parseSentiment ''positive|0.95'' = (''positive'', Num 0.95)
   \<and> parseSentiment ''maybe'' = (''neutral'', Num 0.5)"
proof (intro conjI impI)
  show "parseSentiment s = (''neutral'', Num (1 / 2))" if "CHR ''|'' \<notin> set s"
    using that by (simp add: parseSentiment_def split_no_separator)
next
  assume a: "CHR ''|'' \<notin> set p0 \<and> CHR ''|'' \<notin> set p1
             \<and> (s = p0 @ ''|'' @ p1 \<or> s = p0 @ ''|'' @ p1 @ ''|'' @ rest)"
  then have "split (CHR ''|'') s = [p0, p1] \<or> split (CHR ''|'') s = p0 # p1 # split (CHR ''|'') rest"
    by (auto simp: split_first_part split_no_separator)
  then show "parseSentiment s =
          (if toLowerCase (trim p0) = ''positive'' \<or> toLowerCase (trim p0) = ''neutral''
              \<or> toLowerCase (trim p0) = ''negative''
           then toLowerCase (trim p0) else ''neutral'',
           case parseFloat (trim p1) of
             NaN \<Rightarrow> Num (1 / 2)
           | Num x \<Rightarrow> Num (max 0 (min 1 x))
           | PosInfinity \<Rightarrow> Num 1
           | NegInfinity \<Rightarrow> Num 0)"
    using parseSentiment_two_parts by blast
next
  show "fst (parseSentiment s) = ''positive'' \<or> fst (parseSentiment s) = ''neutral''
        \<or> fst (parseSentiment s) = ''negative''"
    by (simp add: parseSentiment_def Let_def)
next
  show "\<exists>x. snd (parseSentiment s) = Num x \<and> 0 \<le> x \<and> x \<le> 1"
    by (cases "parseFloat (trim (split (CHR ''|'') s ! 1))")
       (auto simp: parseSentiment_def Let_def intro: exI[of _ "1 / 2"])
next
  show "parseSentiment ''positive|0.95'' = (''positive'', Num 0.95)"
    by (simp add: parseSentiment_def Let_def trim_def trimStart_def isWhiteSpace_def
          toLowerCase_def toLowerChar_def isUpper_def parseFloat_def isDigit_def
          digitsValue_def digitValue_def scale10_def)
next
  show "parseSentiment ''maybe'' = (''neutral'', Num 0.5)"
    by (simp add: parseSentiment_def)
qed

theorem parseSentiment_needs_two_parts_witness:
  "parseSentiment '' Negative | 1.7 | sure'' = (''negative'', Num 1)
   \<and> parseSentiment ''calm'' = (''neutral'', Num (1 / 2))"
proof -
  have parts: "CHR ''|'' \<notin> set '' Negative '' \<and> CHR ''|'' \<notin> set '' 1.7 ''
     \<and> ('' Negative | 1.7 | sure'' = '' Negative '' @ ''|'' @ '' 1.7 ''
         \<or> '' Negative | 1.7 | sure'' = '' Negative '' @ ''|'' @ '' 1.7 '' @ ''|'' @ '' sure'')"
    by simp
  have lower: "toLowerCase (trim '' Negative '') = ''negative''"
    by (simp add: trim_def trimStart_def isWhiteSpace_def toLowerCase_def toLowerChar_def
          isUpper_def)
  have num: "parseFloat (trim '' 1.7 '') = Num 1.7"
    by (simp add: trim_def trimStart_def isWhiteSpace_def parseFloat_def isDigit_def
          digitsValue_def digitValue_def scale10_def)
  have none: "CHR ''|'' \<notin> set ''calm''" by simp
  show ?thesis
    using parseSentiment_needs_two_parts
            [of "'' Negative | 1.7 | sure''" "'' Negative ''" "'' 1.7 ''" "'' sure''",
             THEN conjunct2, THEN conjunct1]
          parseSentiment_needs_two_parts [of "''calm''", THEN conjunct1]
          parts lower num none
    by simp
qed

text \<open>
  The claim as stated, that the sentiment is the first part whenever that is one of the
  three words, fails for the response \<^verbatim>\<open>positive\<close>: its only part is \<^verbatim>\<open>positive\<close>, and
  the sentiment is \<^verbatim>\<open>neutral\<close>.
\<close>

theorem one_part_sentiment_counterexample:
  "split (CHR ''|'') ''positive'' = [''positive'']
   \<and> toLowerCase (trim ''positive'') = ''positive''
   \<and> parseSentiment ''positive'' = (''neutral'', Num 0.5)"
  by (simp add: parseSentiment_def trim_def trimStart_def isWhiteSpace_def
        toLowerCase_def toLowerChar_def isUpper_def)

end
